theory Spec2Isabelle
  imports Complex_Main
begin

section \<open>Numbers, strings and JSON objects\<close>



definition lower_char :: "char \<Rightarrow> char" where
  "lower_char c =
     (let n = (of_char c :: nat) in if 65 \<le> n \<and> n \<le> 90 then char_of (n + 32) else c)"

definition lower :: "string \<Rightarrow> string" where
  "lower s = map lower_char s"

definition startswith :: "string \<Rightarrow> string \<Rightarrow> bool" where
  "startswith s p = (take (length p) s = p)"

definition endswith_any :: "string \<Rightarrow> char list \<Rightarrow> bool" where
  \<comment> \<open>\<open>s.endswith((c1, c2, ...))\<close> for one-character suffixes.\<close>
  "endswith_any s cs = (s \<noteq> [] \<and> last s \<in> set cs)"

datatype jval = JNum rat | JStr string | JList "jval list" | JObj "(string \<times> jval) list"

fun jget :: "string \<Rightarrow> jval \<Rightarrow> jval option" where
  "jget k (JObj kvs) = map_of kvs k"
| "jget k _ = None"


fun jpath :: "string list \<Rightarrow> jval \<Rightarrow> jval option" where
  "jpath [] j = Some j"
| "jpath (k # ks) j = (case jget k j of None \<Rightarrow> None | Some j' \<Rightarrow> jpath ks j')"

datatype error = TypeError | AttributeError | Unauthorized | HTTPException nat | ConnectionError | Timeout

section \<open>Address heuristics (app.py)\<close>

definition is_contract_address :: "string \<Rightarrow> bool" where
  "is_contract_address address =
     (if address = [] \<or> length address \<noteq> 42 then False
      else endswith_any (lower address) ''cdef'')"

definition calculate_address_risk :: "string \<Rightarrow> rat" where
  "calculate_address_risk address =
     (if address = [] then 0.5
      else
        let risk = 0;
            risk = (if startswith (lower address) ''0x000'' then risk + 0.3 else risk);
            risk = (if card (set (drop 2 address)) < 10 then risk + 0.2 else risk)
        in min risk 1)"

definition are_addresses_related :: "string \<Rightarrow> string \<Rightarrow> bool" where
  "are_addresses_related sender receiver =
     (if sender = [] \<or> receiver = [] then False else take 10 sender = take 10 receiver)"

record address_analysis =
  sender_is_contract :: bool
  receiver_is_contract :: bool
  sender_risk_score :: rat
  receiver_risk_score :: rat
  addresses_related :: bool

definition analyze_addresses :: "string \<Rightarrow> string \<Rightarrow> address_analysis" where
  "analyze_addresses sender receiver =
     \<lparr> sender_is_contract = is_contract_address sender,
       receiver_is_contract = is_contract_address receiver,
       sender_risk_score = calculate_address_risk sender,
       receiver_risk_score = calculate_address_risk receiver,
       addresses_related = are_addresses_related sender receiver \<rparr>"

section \<open>The feature dictionary\<close>

text \<open>
  The ten named features, in the order of \<open>feature_names\<close>. Both \<open>ml_data\<close> of
  app.py and \<open>transaction\<close> of ml_service/app.py are dictionaries with exactly these
  keys. A Python \<open>bool\<close> is the number 0 or 1.
\<close>

record features =
  amount :: rat
  frequency_24h :: rat
  unique_counterparties :: rat
  hour_of_day :: rat
  gas_price :: rat
  is_contract :: rat
  account_age_days :: rat
  balance :: rat
  token_type_numeric :: rat
  high_gas_fee :: rat

section \<open>Fallback predictor (app.py)\<close>

definition fallback_risk_factors :: "features \<Rightarrow> rat \<times> string list" where
  \<comment> \<open>The five checks of \<open>enhanced_fallback_prediction\<close>: the count and the reasons.\<close>
  "fallback_risk_factors data =
     (let (risk_factors, risk_reasons) = (0, []);
          (risk_factors, risk_reasons) =
            (if amount data > 10000
             then (risk_factors + 1, risk_reasons @ [''High transaction amount''])
             else (risk_factors, risk_reasons));
          (risk_factors, risk_reasons) =
            (if hour_of_day data < 6 \<or> hour_of_day data > 22
             then (risk_factors + 1, risk_reasons @ [''Unusual transaction time''])
             else (risk_factors, risk_reasons));
          (risk_factors, risk_reasons) =
            (if frequency_24h data > 10
             then (risk_factors + 1, risk_reasons @ [''High transaction frequency''])
             else (risk_factors, risk_reasons));
          (risk_factors, risk_reasons) =
            (if gas_price data > 100
             then (risk_factors + 1, risk_reasons @ [''Unusually high gas price''])
             else (risk_factors, risk_reasons));
          (risk_factors, risk_reasons) =
            (if is_contract data \<noteq> 0
             then (risk_factors + 0.5, risk_reasons @ [''Interacting with smart contract''])
             else (risk_factors, risk_reasons))
      in (risk_factors, risk_reasons))"

definition enhanced_fallback_prediction :: "features \<Rightarrow> string \<Rightarrow> jval" where
  \<comment> \<open>\<open>now\<close> is \<open>datetime.now().isoformat()\<close>.\<close>
  "enhanced_fallback_prediction data now =
     (let (risk_factors, risk_reasons) = fallback_risk_factors data;
          is_illicit = (risk_factors \<ge> 2);
          confidence = 0.7 + (min risk_factors 3 * 0.1);
          risk_score = min (risk_factors / 4) 1
      in JObj
          [(''prediction'', JNum (if is_illicit then 1 else 0)),
           (''confidence'', JNum (min confidence 0.95)),
           (''risk_score'', JNum risk_score),
           (''risk_factors'', JList (map JStr risk_reasons)),
           (''source'', JStr ''enhanced_fallback_model''),
           (''models'', JObj
              [(''random_forest'', JObj
                  [(''prediction'', JNum (if is_illicit then 1 else 0)),
                   (''confidence'', JNum confidence)]),
               (''isolation_forest'', JObj
                  [(''prediction'', JNum (if risk_factors > 1.5 then 1 else 0)),
                   (''anomaly_score'', JNum risk_score)])]),
           (''timestamp'', JStr now)])"

section \<open>Risk aggregation and recommendations (app.py)\<close>






section \<open>The prediction handler (app.py)\<close>

text \<open>
  The JSON body of the request: every key may be absent, and a present value has the
  type the handler converts it to.
\<close>

record request =
  req_sender_address :: "string option"
  req_receiver_address :: "string option"
  req_amount :: "rat option"
  req_token_type :: "string option"
  req_gas_limit :: "rat option"
  req_gas_price_gwei :: "rat option"
  req_frequency_24h :: "rat option"
  req_unique_counterparties :: "rat option"
  req_hour_of_day :: "rat option"
  req_account_age_days :: "rat option"
  req_balance :: "rat option"

definition dict_get :: "'a option \<Rightarrow> 'a \<Rightarrow> 'a" where
  \<comment> \<open>\<open>data.get(key, default)\<close> on the looked-up key.\<close>
  "dict_get v dflt = (case v of None \<Rightarrow> dflt | Some x \<Rightarrow> x)"

definition py_int :: "rat \<Rightarrow> int" where
  \<comment> \<open>\<open>int(x)\<close> truncates towards zero.\<close>
  "py_int x = (if 0 \<le> x then \<lfloor>x\<rfloor> else \<lceil>x\<rceil>)"

definition gas_fee_eth_of :: "request \<Rightarrow> rat" where
  "gas_fee_eth_of data =
     (let gas_limit = py_int (dict_get (req_gas_limit data) 21000);
          gas_price_gwei = dict_get (req_gas_price_gwei data) 20;
          gas_fee_wei = of_int gas_limit * (gas_price_gwei * 10 ^ 9)
      in gas_fee_wei / 10 ^ 18)"


definition build_ml_data :: "request \<Rightarrow> features" where
  \<comment> \<open>The dictionary \<open>ml_data\<close> of \<open>api_predict\<close>.\<close>
  "build_ml_data data =
     (let sender = dict_get (req_sender_address data) [];
          receiver = dict_get (req_receiver_address data) [];
          amount = dict_get (req_amount data) 1000;
          token_type = dict_get (req_token_type data) ''ETH'';
          gas_price_gwei = dict_get (req_gas_price_gwei data) 20;
          gas_fee_eth = gas_fee_eth_of data;
          address_analysis = analyze_addresses sender receiver
      in \<lparr> amount = amount,
           frequency_24h = dict_get (req_frequency_24h data) 5,
           unique_counterparties = dict_get (req_unique_counterparties data) 3,
           hour_of_day = dict_get (req_hour_of_day data) 12,
           gas_price = gas_price_gwei,
           is_contract = (if receiver_is_contract address_analysis then 1 else 0),
           account_age_days = dict_get (req_account_age_days data) 365,
           balance = dict_get (req_balance data) 10000,
           token_type_numeric = (if token_type = ''ETH'' then 0 else 1),
           high_gas_fee = (if gas_fee_eth > 0.01 then 1 else 0) \<rparr>)"



section \<open>Ensemble inference (ml_service/app.py)\<close>

text \<open>
  The fitted scaler and the two fitted models are scikit-learn objects: the snapshot
  holds what each of them computes. \<open>models\<close> is empty until training has stored them.
\<close>

record snapshot =
  feature_names :: "string list"
  scaler_transform :: "rat list \<Rightarrow> rat list"
  rf_predict :: "rat list \<Rightarrow> int"
  rf_predict_proba :: "rat list \<Rightarrow> rat \<times> rat"
  iso_predict :: "rat list \<Rightarrow> int"

definition ensemble_vote :: "int \<Rightarrow> int \<Rightarrow> int" where
  \<comment> \<open>\<open>iso_pred_binary\<close> and \<open>ensemble_pred\<close> of \<open>predict\<close>.\<close>
  "ensemble_vote rf_pred iso_pred =
     (let iso_pred_binary = (if iso_pred = - 1 then 1 else 0)
      in if rf_pred + iso_pred_binary \<ge> 1 then 1 else 0)"

definition extract_features :: "(string \<rightharpoonup> rat) \<Rightarrow> rat list" where
  \<comment> \<open>The list \<open>features\<close> of \<open>predict\<close>, in the order of the training data.\<close>
  "extract_features transaction_data =
     [dict_get (transaction_data ''amount'') 100,
      dict_get (transaction_data ''frequency_24h'') 5,
      dict_get (transaction_data ''unique_counterparties'') 3,
      dict_get (transaction_data ''hour_of_day'') 12,
      dict_get (transaction_data ''gas_price'') 20,
      dict_get (transaction_data ''is_contract'') 0,
      dict_get (transaction_data ''account_age_days'') 365,
      dict_get (transaction_data ''balance'') 1000,
      dict_get (transaction_data ''token_type_numeric'') 0,
      dict_get (transaction_data ''high_gas_fee'') 0]"

definition predict :: "snapshot option \<Rightarrow> string \<Rightarrow> (string \<rightharpoonup> rat) \<Rightarrow> error + jval" where
  \<comment> \<open>Every exception raised in the body, the 503 included, leaves as a 400.\<close>
  "predict models now transaction_data =
     (case models of
        None \<Rightarrow> Inl (HTTPException 400)
      | Some m \<Rightarrow>
          let features = extract_features transaction_data
          in if length features \<noteq> length (feature_names m) then Inl (HTTPException 400)
             else
               let features_scaled = scaler_transform m features;
                   rf_pred = rf_predict m features_scaled;
                   rf_proba = rf_predict_proba m features_scaled;
                   iso_pred = iso_predict m features_scaled;
                   iso_pred_binary = (if iso_pred = - 1 then 1 else 0);
                   ensemble_pred = ensemble_vote rf_pred iso_pred;
                   risk_factors = [];
                   risk_factors =
                     (if dict_get (transaction_data ''amount'') 0 > 10000
                      then risk_factors @ [''High transaction amount''] else risk_factors);
                   risk_factors =
                     (if dict_get (transaction_data ''hour_of_day'') 12 < 6
                         \<or> dict_get (transaction_data ''hour_of_day'') 12 > 22
                      then risk_factors @ [''Unusual transaction time''] else risk_factors);
                   risk_factors =
                     (if dict_get (transaction_data ''frequency_24h'') 0 > 10
                      then risk_factors @ [''High transaction frequency''] else risk_factors);
                   risk_factors =
                     (if dict_get (transaction_data ''gas_price'') 0 > 50
                      then risk_factors @ [''Unusually high gas price''] else risk_factors);
                   risk_factors =
                     (if dict_get (transaction_data ''is_contract'') 0 \<noteq> 0
                      then risk_factors @ [''Smart contract interaction''] else risk_factors)
               in Inr (JObj
                   [(''prediction'', JNum (of_int ensemble_pred)),
                    (''confidence'', JNum (max (fst rf_proba) (snd rf_proba))),
                    (''risk_score'', JNum (snd rf_proba)),
                    (''risk_factors'', JList (map JStr risk_factors)),
                    (''models'', JObj
                       [(''random_forest'', JObj
                           [(''prediction'', JNum (of_int rf_pred)),
                            (''confidence'', JNum (max (fst rf_proba) (snd rf_proba))),
                            (''probabilities'', JObj
                               [(''normal'', JNum (fst rf_proba)),
                                (''illicit'', JNum (snd rf_proba))])]),
                        (''isolation_forest'', JObj
                           [(''prediction'', JNum (of_int iso_pred_binary)),
                            (''anomaly_score'', JNum (of_int \<bar>iso_pred\<bar>))])]),
                    (''timestamp'', JStr now),
                    (''source'', JStr ''ml_service'')]))"

definition features_dict :: "features \<Rightarrow> (string \<rightharpoonup> rat)" where
  \<comment> \<open>The JSON body that \<open>api_predict\<close> posts: \<open>ml_data\<close> with its ten keys.\<close>
  "features_dict d =
     [''amount'' \<mapsto> amount d,
      ''frequency_24h'' \<mapsto> frequency_24h d,
      ''unique_counterparties'' \<mapsto> unique_counterparties d,
      ''hour_of_day'' \<mapsto> hour_of_day d,
      ''gas_price'' \<mapsto> gas_price d,
      ''is_contract'' \<mapsto> is_contract d,
      ''account_age_days'' \<mapsto> account_age_days d,
      ''balance'' \<mapsto> balance d,
      ''token_type_numeric'' \<mapsto> token_type_numeric d,
      ''high_gas_fee'' \<mapsto> high_gas_fee d]"

section \<open>Synthetic data generator (ml_service/app.py)\<close>

text \<open>
  \<open>np.random\<close> is a global generator: every draw reads its state and leaves a new one.
  The state is threaded explicitly, and the draws of NumPy are the fields of
  \<open>np_random\<close>. Seeding replaces the state by one that depends on the seed alone.
\<close>

record 'g np_random =
  np_seed :: "nat \<Rightarrow> 'g"
  np_lognormal :: "rat \<Rightarrow> rat \<Rightarrow> 'g \<Rightarrow> rat \<times> 'g"
  np_poisson :: "rat \<Rightarrow> 'g \<Rightarrow> rat \<times> 'g"
  np_normal :: "rat \<Rightarrow> rat \<Rightarrow> 'g \<Rightarrow> rat \<times> 'g"
  np_gamma :: "rat \<Rightarrow> rat \<Rightarrow> 'g \<Rightarrow> rat \<times> 'g"
  np_exponential :: "rat \<Rightarrow> 'g \<Rightarrow> rat \<times> 'g"
  np_uniform :: "rat \<Rightarrow> rat \<Rightarrow> 'g \<Rightarrow> rat \<times> 'g"
  np_choice :: "rat list \<Rightarrow> rat list option \<Rightarrow> 'g \<Rightarrow> rat \<times> 'g"

definition py_mod :: "rat \<Rightarrow> rat \<Rightarrow> rat" where
  \<comment> \<open>\<open>x % m\<close> for a positive \<open>m\<close>.\<close>
  "py_mod x m = x - m * of_int \<lfloor>x / m\<rfloor>"

definition normal_transaction :: "'g np_random \<Rightarrow> 'g \<Rightarrow> features \<times> 'g" where
  "normal_transaction R g =
     (let (v_amount, g) = np_lognormal R 3 1.5 g;
          (v_frequency_24h, g) = np_poisson R 3 g;
          (v_unique_counterparties, g) = np_poisson R 2 g;
          (v_hour, g) = np_normal R 12 4 g;
          (v_gas_price, g) = np_gamma R 2 10 g;
          (v_is_contract, g) = np_choice R [0, 1] (Some [0.8, 0.2]) g;
          (v_account_age_days, g) = np_exponential R 365 g;
          (v_balance, g) = np_lognormal R 4 2 g;
          (v_token_type_numeric, g) = np_choice R [0, 1] (Some [0.7, 0.3]) g;
          transaction =
            \<lparr> amount = v_amount,
              frequency_24h = v_frequency_24h,
              unique_counterparties = v_unique_counterparties,
              hour_of_day = py_mod v_hour 24,
              gas_price = v_gas_price,
              is_contract = v_is_contract,
              account_age_days = v_account_age_days,
              balance = v_balance,
              token_type_numeric = v_token_type_numeric,
              high_gas_fee = 0 \<rparr>;
          transaction =
            transaction\<lparr> high_gas_fee := (if gas_price transaction > 50 then 1 else 0) \<rparr>
      in (transaction, g))"

definition illicit_transaction :: "'g np_random \<Rightarrow> 'g \<Rightarrow> features \<times> 'g" where
  \<comment> \<open>The arguments of each \<open>np.random.choice\<close> are drawn before the choice itself.\<close>
  "illicit_transaction R g =
     (let (a1, g) = np_lognormal R 5 2 g;
          (a2, g) = np_uniform R 9999 10001 g;
          (v_amount, g) = np_choice R [a1, a2] None g;
          (f1, g) = np_poisson R 15 g;
          (v_frequency_24h, g) = np_choice R [f1, 1] None g;
          (u2, g) = np_poisson R 8 g;
          (v_unique_counterparties, g) = np_choice R [1, u2] None g;
          (h1, g) = np_uniform R 0 6 g;
          (h2, g) = np_uniform R 22 24 g;
          (h3, g) = np_normal R 12 2 g;
          (v_hour_of_day, g) = np_choice R [h1, h2, py_mod h3 24] None g;
          (p1, g) = np_gamma R 5 20 g;
          (p2, g) = np_gamma R 1 5 g;
          (v_gas_price, g) = np_choice R [p1, p2] None g;
          (v_is_contract, g) = np_choice R [0, 1] (Some [0.3, 0.7]) g;
          (d1, g) = np_exponential R 30 g;
          (d2, g) = np_exponential R 1000 g;
          (v_account_age_days, g) = np_choice R [d1, d2] None g;
          (b1, g) = np_lognormal R 2 1 g;
          (b2, g) = np_lognormal R 6 2 g;
          (v_balance, g) = np_choice R [b1, b2] None g;
          (v_token_type_numeric, g) = np_choice R [0, 1] (Some [0.4, 0.6]) g;
          transaction =
            \<lparr> amount = v_amount,
              frequency_24h = v_frequency_24h,
              unique_counterparties = v_unique_counterparties,
              hour_of_day = v_hour_of_day,
              gas_price = v_gas_price,
              is_contract = v_is_contract,
              account_age_days = v_account_age_days,
              balance = v_balance,
              token_type_numeric = v_token_type_numeric,
              high_gas_fee = 0 \<rparr>;
          transaction =
            transaction\<lparr> high_gas_fee := (if gas_price transaction > 50 then 1 else 0) \<rparr>
      in (transaction, g))"

fun draw_rows :: "('g \<Rightarrow> features \<times> 'g) \<Rightarrow> nat \<Rightarrow> 'g \<Rightarrow> features list \<times> 'g" where
  \<comment> \<open>\<open>for _ in range(k)\<close>: one transaction per round, appended in order.\<close>
  "draw_rows draw 0 g = ([], g)"
| "draw_rows draw (Suc k) g =
     (let (t, g) = draw g; (ts, g) = draw_rows draw k g in (t # ts, g))"

fun np_normal_array :: "'g np_random \<Rightarrow> rat \<Rightarrow> rat list \<Rightarrow> 'g \<Rightarrow> rat list \<times> 'g" where
  \<comment> \<open>\<open>np.random.normal(loc, scale)\<close> with an array of scales: one draw per entry.
      NumPy rejects a negative scale; the amounts and balances drawn above are never
      negative.\<close>
  "np_normal_array R loc [] g = ([], g)"
| "np_normal_array R loc (s # ss) g =
     (let (x, g) = np_normal R loc s g; (xs, g) = np_normal_array R loc ss g in (x # xs, g))"

definition generate_synthetic_data ::
  "'g np_random \<Rightarrow> int \<Rightarrow> 'g \<Rightarrow> ((features \<times> int) list \<times> string list) \<times> 'g" where
  \<comment> \<open>The data frame is the list of its rows, each with its label; the last argument is
      the state of \<open>np.random\<close> when the generator is called.\<close>
  "generate_synthetic_data R n_samples g0 =
     (let g = np_seed R 42;
          normal_samples = py_int (of_int n_samples * 0.85);
          illicit_samples = n_samples - normal_samples;
          (normals, g) = draw_rows (normal_transaction R) (nat normal_samples) g;
          (illicits, g) = draw_rows (illicit_transaction R) (nat illicit_samples) g;
          df = map (\<lambda>t. (t, 0)) normals @ map (\<lambda>t. (t, 1)) illicits;
          names = [''amount'', ''frequency_24h'', ''unique_counterparties'', ''hour_of_day'',
                   ''gas_price'', ''is_contract'', ''account_age_days'', ''balance'',
                   ''token_type_numeric'', ''high_gas_fee''];
          (noise, g) = np_normal_array R 0 (map (\<lambda>(t, l). amount t * 0.01) df) g;
          df = map2 (\<lambda>(t, l) x. (t\<lparr> amount := amount t + x \<rparr>, l)) df noise;
          (noise, g) = np_normal_array R 0 (map (\<lambda>(t, l). balance t * 0.01) df) g;
          df = map2 (\<lambda>(t, l) x. (t\<lparr> balance := balance t + x \<rparr>, l)) df noise
      in ((df, names), g))"

section \<open>Inputs used in the examples\<close>



definition normal_eth_request :: request where
  \<comment> \<open>"Normal ETH Transaction" of test_enhanced_system.py.\<close>
  "normal_eth_request =
     \<lparr> req_sender_address = Some ''0x1234567890123456789012345678901234567890'',
       req_receiver_address = Some ''0x0987654321098765432109876543210987654321'',
       req_amount = Some 500,
       req_token_type = Some ''ETH'',
       req_gas_limit = Some 21000,
       req_gas_price_gwei = Some 20,
       req_frequency_24h = Some 3,
       req_unique_counterparties = Some 2,
       req_hour_of_day = Some 14,
       req_account_age_days = Some 365,
       req_balance = Some 5000 \<rparr>"

definition suspicious_eth_request :: request where
  \<comment> \<open>"Suspicious High-Value ETH" of test_enhanced_system.py.\<close>
  "suspicious_eth_request =
     \<lparr> req_sender_address = Some ''0x000000000000000000000000000000000000000a'',
       req_receiver_address = Some ''0xffffffffffffffffffffffffffffffffffffffff'',
       req_amount = Some 25000,
       req_token_type = Some ''ETH'',
       req_gas_limit = Some 21000,
       req_gas_price_gwei = Some 150,
       req_frequency_24h = Some 1,
       req_unique_counterparties = Some 1,
       req_hour_of_day = Some 3,
       req_account_age_days = Some 10,
       req_balance = Some 30000 \<rparr>"

definition likely_illicit_request :: request where
  \<comment> \<open>"Likely Illicit Pattern" of test_enhanced_system.py.\<close>
  "likely_illicit_request =
     \<lparr> req_sender_address = Some ''0x000000000000000000000000000000000000000b'',
       req_receiver_address = Some ''0x1234567890123456789012345678901234567cde'',
       req_amount = Some 50000,
       req_token_type = Some ''USDC'',
       req_gas_limit = Some 150000,
       req_gas_price_gwei = Some 300,
       req_frequency_24h = Some 25,
       req_unique_counterparties = Some 1,
       req_hour_of_day = Some 4,
       req_account_age_days = Some 1,
       req_balance = Some 75000 \<rparr>"

definition constant_snapshot :: "int \<Rightarrow> rat \<Rightarrow> int \<Rightarrow> snapshot" where
  \<comment> \<open>A trained snapshot whose classifier answers \<open>v\<close> with illicit probability \<open>p\<close> and
      whose anomaly detector answers \<open>a\<close>, whatever the features.\<close>
  "constant_snapshot v p a =
     \<lparr> feature_names =
         [''amount'', ''frequency_24h'', ''unique_counterparties'', ''hour_of_day'',
          ''gas_price'', ''is_contract'', ''account_age_days'', ''balance'',
          ''token_type_numeric'', ''high_gas_fee''],
       scaler_transform = (\<lambda>xs. xs),
       rf_predict = (\<lambda>xs. v),
       rf_predict_proba = (\<lambda>xs. (1 - p, p)),
       iso_predict = (\<lambda>xs. a) \<rparr>"



definition counter_random :: "nat np_random" where
  \<comment> \<open>A random source whose state is a counter: each draw is computed from the counter
      and increments it.\<close>
  "counter_random =
     \<lparr> np_seed = (\<lambda>s. s),
       np_lognormal = (\<lambda>mu sigma g. (of_nat (g * 37 mod 101), Suc g)),
       np_poisson = (\<lambda>lam g. (of_nat (g mod 7), Suc g)),
       np_normal = (\<lambda>loc scale g. (loc + scale * (of_nat (g mod 5) - 2), Suc g)),
       np_gamma = (\<lambda>k theta g. (k * theta * of_nat (g mod 4), Suc g)),
       np_exponential = (\<lambda>scale g. (scale * of_nat (g mod 3), Suc g)),
       np_uniform = (\<lambda>lo hi g. (lo + (hi - lo) * of_nat (g mod 10) / 10, Suc g)),
       np_choice = (\<lambda>xs p g. (if xs = [] then 0 else xs ! (g mod length xs), Suc g)) \<rparr>"

definition gas_columns :: "(features \<times> int) list \<Rightarrow> (rat \<times> rat \<times> int) list" where
  \<comment> \<open>The gas price, the high-gas-fee flag and the label of every row.\<close>
  "gas_columns df = map (\<lambda>(t, l). (gas_price t, high_gas_fee t, l)) df"

section \<open>Rounding\<close>





section \<open>Address risk\<close>

text \<open>
  Claim C9. The address risk is defined on every string. The empty address scores exactly
  0.5. Any other address scores 0.3 if its lower-cased form starts with \<open>0x000\<close>, plus 0.2
  if the part after the first two characters has fewer than ten distinct characters, capped
  at 1; so the score always lies between 0 and 1. The address
  \<open>0x0000000000000000000000000000000000000a\<close> scores at least 0.3.
\<close>

theorem calculate_address_risk_spec:
  "calculate_address_risk [] = 0.5
   \<and> (address \<noteq> [] \<longrightarrow>
        calculate_address_risk address =
          min ((if startswith (lower address) ''0x000'' then 0.3 else 0)
               + (if card (set (drop 2 address)) < 10 then 0.2 else 0)) 1)
   \<and> 0 \<le> calculate_address_risk address
   \<and> calculate_address_risk address \<le> 1
   \<and> calculate_address_risk ''0x0000000000000000000000000000000000000a'' \<ge> 0.3"
proof -
  have ex: "calculate_address_risk ''0x0000000000000000000000000000000000000a'' = 0.5"
    by code_simp
  show ?thesis
    unfolding ex by (simp add: calculate_address_risk_def Let_def)
qed

theorem calculate_address_risk_spec_witness:
  "''0xAbC'' \<noteq> [] \<and> calculate_address_risk ''0xAbC'' = 0.2
   \<and> calculate_address_risk ''0X000123456789abcdef'' = 0.3"
proof -
  have a: "startswith (lower ''0xAbC'') ''0x000'' = False" by code_simp
  have b: "card (set (drop 2 ''0xAbC'')) = 3" by code_simp
  have c: "startswith (lower ''0X000123456789abcdef'') ''0x000'' = True" by code_simp
  have d: "card (set (drop 2 ''0X000123456789abcdef'')) = 16" by code_simp
  show ?thesis
    using calculate_address_risk_spec [of "''0xAbC''"]
      calculate_address_risk_spec [of "''0X000123456789abcdef''"]
    unfolding a b c d by simp
qed

section \<open>Fallback predictor\<close>

lemma fallback_count:
  "fst (fallback_risk_factors data) =
     (if amount data > 10000 then 1 else 0)
     + (if hour_of_day data < 6 \<or> hour_of_day data > 22 then 1 else 0)
     + (if frequency_24h data > 10 then 1 else 0)
     + (if gas_price data > 100 then 1 else 0)
     + (if is_contract data \<noteq> 0 then 1 / 2 else 0)"
  by (simp add: fallback_risk_factors_def)

lemma fallback_fields:
  "jget ''prediction'' (enhanced_fallback_prediction data now) =
     Some (JNum (if fst (fallback_risk_factors data) \<ge> 2 then 1 else 0))"
  "jget ''confidence'' (enhanced_fallback_prediction data now) =
     Some (JNum (min (0.7 + 0.1 * min (fst (fallback_risk_factors data)) 3) 0.95))"
  "jget ''risk_score'' (enhanced_fallback_prediction data now) =
     Some (JNum (min (fst (fallback_risk_factors data) / 4) 1))"
  "jget ''source'' (enhanced_fallback_prediction data now) =
     Some (JStr ''enhanced_fallback_model'')"
  by (simp_all add: enhanced_fallback_prediction_def Let_def split_beta)

text \<open>
  Claim C3. The fallback predictor counts 1 for an amount above 10000, 1 for an hour below 6
  or above 22, 1 for a 24-hour frequency above 10, 1 for a gas price above 100 and one half
  for a contract. Its prediction is 1 exactly when the count is at least 2, its confidence is
  \<open>min (0.7 + 0.1 * min count 3) 0.95\<close> and its risk score is \<open>min (count / 4) 1\<close>. For
  amount 50000, frequency 25, gas price 300, hour 4 and a contract, the count is at least 3,
  the prediction is 1 and the confidence is 0.95.
\<close>

theorem enhanced_fallback_prediction_spec:
  "fst (fallback_risk_factors data) =
     (if amount data > 10000 then 1 else 0)
     + (if hour_of_day data < 6 \<or> hour_of_day data > 22 then 1 else 0)
     + (if frequency_24h data > 10 then 1 else 0)
     + (if gas_price data > 100 then 1 else 0)
     + (if is_contract data \<noteq> 0 then 1 / 2 else 0)
   \<and> jget ''prediction'' (enhanced_fallback_prediction data now) =
       Some (JNum (if fst (fallback_risk_factors data) \<ge> 2 then 1 else 0))
   \<and> jget ''confidence'' (enhanced_fallback_prediction data now) =
       Some (JNum (min (0.7 + 0.1 * min (fst (fallback_risk_factors data)) 3) 0.95))
   \<and> jget ''risk_score'' (enhanced_fallback_prediction data now) =
       Some (JNum (min (fst (fallback_risk_factors data) / 4) 1))
   \<and> (amount data = 50000 \<and> frequency_24h data = 25 \<and> gas_price data = 300
        \<and> hour_of_day data = 4 \<and> is_contract data \<noteq> 0 \<longrightarrow>
        fst (fallback_risk_factors data) \<ge> 3
        \<and> jget ''prediction'' (enhanced_fallback_prediction data now) = Some (JNum 1)
        \<and> jget ''confidence'' (enhanced_fallback_prediction data now) = Some (JNum 0.95))"
  unfolding fallback_fields fallback_count by simp

theorem enhanced_fallback_prediction_spec_witness:
  "amount (build_ml_data likely_illicit_request) = 50000
   \<and> frequency_24h (build_ml_data likely_illicit_request) = 25
   \<and> gas_price (build_ml_data likely_illicit_request) = 300
   \<and> hour_of_day (build_ml_data likely_illicit_request) = 4
   \<and> is_contract (build_ml_data likely_illicit_request) \<noteq> 0
   \<and> fst (fallback_risk_factors (build_ml_data likely_illicit_request)) \<ge> 3
   \<and> jget ''prediction'' (enhanced_fallback_prediction (build_ml_data likely_illicit_request) [])
       = Some (JNum 1)
   \<and> jget ''confidence'' (enhanced_fallback_prediction (build_ml_data likely_illicit_request) [])
       = Some (JNum 0.95)"
proof -
  have d: "build_ml_data likely_illicit_request =
      \<lparr>amount = 50000, frequency_24h = 25, unique_counterparties = 1,
       hour_of_day = 4, gas_price = 300, is_contract = 1, account_age_days = 1,
       balance = 75000, token_type_numeric = 1, high_gas_fee = 1\<rparr>"
    by code_simp
  show ?thesis
    using enhanced_fallback_prediction_spec [of "build_ml_data likely_illicit_request" "[]"]
    unfolding d by simp
qed

text \<open>
  Claim C10. In the result of the fallback predictor the synthesized random-forest
  prediction and the synthesized isolation-forest prediction both equal the top-level
  prediction: the count is a multiple of one half, so it exceeds 1.5 exactly when it is at
  least 2.
\<close>

theorem fallback_breakdown_consistent:
  "jpath [''models'', ''random_forest'', ''prediction''] (enhanced_fallback_prediction data now)
     = jget ''prediction'' (enhanced_fallback_prediction data now)
   \<and> jpath [''models'', ''isolation_forest'', ''prediction''] (enhanced_fallback_prediction data now)
       = jget ''prediction'' (enhanced_fallback_prediction data now)
   \<and> jget ''prediction'' (enhanced_fallback_prediction data now)
       = Some (JNum (if fst (fallback_risk_factors data) \<ge> 2 then 1 else 0))
   \<and> (fst (fallback_risk_factors data) > 1.5 \<longleftrightarrow> fst (fallback_risk_factors data) \<ge> 2)
   \<and> (\<exists>k::nat. k \<le> 9 \<and> fst (fallback_risk_factors data) = of_nat k / 2)"
proof -
  have m: "\<exists>k::nat. k \<le> 9 \<and> fst (fallback_risk_factors data) = of_nat k / 2"
  proof -
    define a :: nat where "a = (if amount data > 10000 then 2 else 0)"
    define b :: nat where "b = (if hour_of_day data < 6 \<or> hour_of_day data > 22 then 2 else 0)"
    define c :: nat where "c = (if frequency_24h data > 10 then 2 else 0)"
    define d :: nat where "d = (if gas_price data > 100 then 2 else 0)"
    define e :: nat where "e = (if is_contract data \<noteq> 0 then 1 else 0)"
    have "a + b + c + d + e \<le> 9" by (simp add: a_def b_def c_def d_def e_def)
    moreover have "fst (fallback_risk_factors data) = of_nat (a + b + c + d + e) / 2"
      unfolding fallback_count by (simp add: a_def b_def c_def d_def e_def)
    ultimately show ?thesis by blast
  qed
  then obtain k :: nat where k: "fst (fallback_risk_factors data) = of_nat k / 2" by blast
  have iff: "fst (fallback_risk_factors data) > 1.5 \<longleftrightarrow> fst (fallback_risk_factors data) \<ge> 2"
  proof -
    have "(of_nat k / 2 > (1.5::rat)) = (k > 3)" by (simp add: field_simps)
    moreover have "(of_nat k / 2 \<ge> (2::rat)) = (k \<ge> 4)" by (simp add: field_simps)
    ultimately show ?thesis unfolding k by auto
  qed
  have p: "jget ''prediction'' (enhanced_fallback_prediction data now)
       = Some (JNum (if fst (fallback_risk_factors data) \<ge> 2 then 1 else 0))"
    by (rule fallback_fields)
  have rf: "jpath [''models'', ''random_forest'', ''prediction''] (enhanced_fallback_prediction data now)
       = Some (JNum (if fst (fallback_risk_factors data) \<ge> 2 then 1 else 0))"
    by (simp add: enhanced_fallback_prediction_def Let_def split_beta)
  have iso: "jpath [''models'', ''isolation_forest'', ''prediction''] (enhanced_fallback_prediction data now)
       = Some (JNum (if fst (fallback_risk_factors data) > 1.5 then 1 else 0))"
    by (simp add: enhanced_fallback_prediction_def Let_def split_beta)
  show ?thesis unfolding rf iso p using iff m by simp
qed


theorem fallback_breakdown_consistent_witness:
  "jpath [''models'', ''isolation_forest'', ''prediction'']
     (enhanced_fallback_prediction (build_ml_data suspicious_eth_request) [])
     = Some (JNum 1)
   \<and> jget ''prediction'' (enhanced_fallback_prediction (build_ml_data suspicious_eth_request) [])
       = Some (JNum 1)
   \<and> fst (fallback_risk_factors (build_ml_data suspicious_eth_request)) = 7 / 2"
proof -
  have c: "fst (fallback_risk_factors (build_ml_data suspicious_eth_request)) = 7 / 2"
    by code_simp
  show ?thesis
    using fallback_breakdown_consistent [of "build_ml_data suspicious_eth_request" "[]"]
    unfolding c by simp
qed

section \<open>Risk aggregation\<close>






section \<open>Ensemble inference\<close>

lemma predict_trained:
  "length (feature_names m) = 10 \<Longrightarrow>
   \<exists>factors.
     predict (Some m) now td =
       Inr (JObj
         [(''prediction'', JNum (of_int (ensemble_vote
              (rf_predict m (scaler_transform m (extract_features td)))
              (iso_predict m (scaler_transform m (extract_features td)))))),
          (''confidence'', JNum (max (fst (rf_predict_proba m (scaler_transform m (extract_features td))))
                                      (snd (rf_predict_proba m (scaler_transform m (extract_features td)))))),
          (''risk_score'', JNum (snd (rf_predict_proba m (scaler_transform m (extract_features td))))),
          (''risk_factors'', JList (map JStr factors)),
          (''models'', JObj
             [(''random_forest'', JObj
                 [(''prediction'', JNum (of_int (rf_predict m (scaler_transform m (extract_features td))))),
                  (''confidence'', JNum (max (fst (rf_predict_proba m (scaler_transform m (extract_features td))))
                                      (snd (rf_predict_proba m (scaler_transform m (extract_features td)))))),
                  (''probabilities'', JObj
                     [(''normal'', JNum (fst (rf_predict_proba m (scaler_transform m (extract_features td))))),
                      (''illicit'', JNum (snd (rf_predict_proba m (scaler_transform m (extract_features td)))))])]),
              (''isolation_forest'', JObj
                 [(''prediction'', JNum (of_int
                     (if iso_predict m (scaler_transform m (extract_features td)) = - 1 then 1 else 0))),
                  (''anomaly_score'', JNum (of_int
                     \<bar>iso_predict m (scaler_transform m (extract_features td))\<bar>))])]),
          (''timestamp'', JStr now),
          (''source'', JStr ''ml_service'')])"
proof -
  assume len: "length (feature_names m) = 10"
  have l: "length (extract_features td) = 10" by (simp add: extract_features_def)
  show ?thesis
    unfolding predict_def Let_def option.case l len by (simp only: refl if_False simp_thms sum.inject jval.inject list.inject prod.inject) blast
qed


text \<open>
  Claim C2. With a trained snapshot, inference returns a result whose prediction is 1
  exactly when the classifier's vote plus the anomaly detector's outlier vote (outlier
  counted as 1) is at least 1. For a classifier vote of 0 or 1 this is the disjunction of
  the two votes, so an outlier flag alone gives the verdict 1 when the classifier votes 0.
\<close>

theorem predict_ensemble_vote:
  assumes "length (feature_names m) = 10"
  shows "let xs = scaler_transform m (extract_features td);
             v = rf_predict m xs;
             a = iso_predict m xs
         in \<exists>r. predict (Some m) now td = Inr r
              \<and> jpath [''models'', ''random_forest'', ''prediction''] r = Some (JNum (of_int v))
              \<and> jpath [''models'', ''isolation_forest'', ''prediction''] r
                  = Some (JNum (if a = - 1 then 1 else 0))
              \<and> (jget ''prediction'' r = Some (JNum 1)
                    \<longleftrightarrow> v + (if a = - 1 then 1 else 0) \<ge> 1)
              \<and> (jget ''prediction'' r = Some (JNum 0)
                    \<longleftrightarrow> \<not> v + (if a = - 1 then 1 else 0) \<ge> 1)
              \<and> (v = 0 \<or> v = 1 \<longrightarrow>
                    (jget ''prediction'' r = Some (JNum 1) \<longleftrightarrow> v = 1 \<or> a = - 1))
              \<and> (v = 0 \<and> a = - 1 \<longrightarrow> jget ''prediction'' r = Some (JNum 1))"
proof -
  obtain factors where p: "predict (Some m) now td =
       Inr (JObj
         [(''prediction'', JNum (of_int (ensemble_vote
              (rf_predict m (scaler_transform m (extract_features td)))
              (iso_predict m (scaler_transform m (extract_features td)))))),
          (''confidence'', JNum (max (fst (rf_predict_proba m (scaler_transform m (extract_features td))))
                                      (snd (rf_predict_proba m (scaler_transform m (extract_features td)))))),
          (''risk_score'', JNum (snd (rf_predict_proba m (scaler_transform m (extract_features td))))),
          (''risk_factors'', JList (map JStr factors)),
          (''models'', JObj
             [(''random_forest'', JObj
                 [(''prediction'', JNum (of_int (rf_predict m (scaler_transform m (extract_features td))))),
                  (''confidence'', JNum (max (fst (rf_predict_proba m (scaler_transform m (extract_features td))))
                                      (snd (rf_predict_proba m (scaler_transform m (extract_features td)))))),
                  (''probabilities'', JObj
                     [(''normal'', JNum (fst (rf_predict_proba m (scaler_transform m (extract_features td))))),
                      (''illicit'', JNum (snd (rf_predict_proba m (scaler_transform m (extract_features td)))))])]),
              (''isolation_forest'', JObj
                 [(''prediction'', JNum (of_int
                     (if iso_predict m (scaler_transform m (extract_features td)) = - 1 then 1 else 0))),
                  (''anomaly_score'', JNum (of_int
                     \<bar>iso_predict m (scaler_transform m (extract_features td))\<bar>))])]),
          (''timestamp'', JStr now),
          (''source'', JStr ''ml_service'')])"
    using predict_trained [OF assms, of now td] by blast
  show ?thesis
    unfolding Let_def p by (auto simp: ensemble_vote_def)
qed

theorem predict_ensemble_vote_witness:
  "length (feature_names (constant_snapshot 0 (1 / 5) (- 1))) = 10
   \<and> rf_predict (constant_snapshot 0 (1 / 5) (- 1))
        (scaler_transform (constant_snapshot 0 (1 / 5) (- 1))
           (extract_features (features_dict (build_ml_data normal_eth_request)))) = 0
   \<and> iso_predict (constant_snapshot 0 (1 / 5) (- 1))
        (scaler_transform (constant_snapshot 0 (1 / 5) (- 1))
           (extract_features (features_dict (build_ml_data normal_eth_request)))) = - 1
   \<and> (\<exists>r. predict (Some (constant_snapshot 0 (1 / 5) (- 1))) []
              (features_dict (build_ml_data normal_eth_request)) = Inr r
         \<and> jpath [''models'', ''random_forest'', ''prediction''] r = Some (JNum 0)
         \<and> jget ''prediction'' r = Some (JNum 1))"
proof -
  have l: "length (feature_names (constant_snapshot 0 (1 / 5) (- 1))) = 10"
    by (simp add: constant_snapshot_def)
  have v: "rf_predict (constant_snapshot 0 (1 / 5) (- 1)) xs = 0" for xs
    by (simp add: constant_snapshot_def)
  have a: "iso_predict (constant_snapshot 0 (1 / 5) (- 1)) xs = - 1" for xs
    by (simp add: constant_snapshot_def)
  show ?thesis
    using predict_ensemble_vote [OF l, of "features_dict (build_ml_data normal_eth_request)" "[]"]
    unfolding Let_def v a by (auto simp: l)
qed

section \<open>Feature extraction in the prediction handler\<close>

text \<open>
  Claim C4 at the "Suspicious High-Value ETH" request of the repository's test: the
  handler sets \<open>high_gas_fee\<close> from the gas fee in ETH (gas limit times gas price, above
  0.01), not from the gas price. With a gas limit of 21000 and a gas price of 150 the fee is
  0.00315 ETH, so the flag is 0 although the gas price exceeds 50.
\<close>

theorem high_gas_fee_ignores_gas_price:
  "gas_price (build_ml_data suspicious_eth_request) = 150
   \<and> high_gas_fee (build_ml_data suspicious_eth_request) = 0"
  by code_simp

section \<open>Result objects of the two predictors\<close>












section \<open>Synthetic data generator\<close>

lemma normal_transaction_flag:
  "high_gas_fee (fst (normal_transaction R g))
     = (if gas_price (fst (normal_transaction R g)) > 50 then 1 else 0)"
  by (simp add: normal_transaction_def split_beta Let_def)

lemma illicit_transaction_flag:
  "high_gas_fee (fst (illicit_transaction R g))
     = (if gas_price (fst (illicit_transaction R g)) > 50 then 1 else 0)"
  by (simp add: illicit_transaction_def split_beta Let_def)

lemma draw_rows_all:
  assumes "\<And>g. Q (fst (draw g))"
  shows "\<forall>t \<in> set (fst (draw_rows draw k g)). Q t"
proof (induction k arbitrary: g)
  case 0
  show ?case by simp
next
  case (Suc k)
  show ?case using assms Suc by (simp add: split_beta Let_def)
qed

lemma draw_rows_length: "length (fst (draw_rows draw k g)) = k"
  by (induction k arbitrary: g) (simp_all add: split_beta Let_def)

lemma np_normal_array_length: "length (fst (np_normal_array R loc ss g)) = length ss"
  by (induction ss arbitrary: g) (simp_all add: split_beta Let_def)

lemma noise_rows_all:
  assumes "\<forall>(t, l) \<in> set df. Q t \<and> L l" and "\<And>t x. Q t \<Longrightarrow> Q (upd t x)"
  shows "\<forall>(t, l) \<in> set (map2 (\<lambda>(t, l) x. (upd t x, l)) df xs). Q t \<and> L l"
  using assms(1)
proof (induction df arbitrary: xs)
  case Nil
  show ?case by simp
next
  case (Cons row df)
  show ?case
  proof (cases xs)
    case Nil
    then show ?thesis by simp
  next
    case (Cons x xs')
    then show ?thesis using Cons.prems Cons.IH [of xs'] assms(2)
      by (auto simp: split_beta)
  qed
qed

lemma py_int_085: "0 \<le> n \<Longrightarrow> 0 \<le> py_int (of_int n * 0.85) \<and> py_int (of_int n * 0.85) \<le> n"
proof -
  assume n: "0 \<le> n"
  then have a: "(0::rat) \<le> of_int n * 0.85" by simp
  have "of_int n * (0.85::rat) \<le> of_int n" using n by (simp add: field_simps)
  then have "\<lfloor>of_int n * (0.85::rat)\<rfloor> \<le> n" by (simp add: floor_le_iff)
  moreover have "0 \<le> \<lfloor>of_int n * (0.85::rat)\<rfloor>" using a by simp
  ultimately show ?thesis using a by (simp add: py_int_def)
qed

text \<open>
  Claim C7. For every sample count, every random source and every state of it, each row of
  the generated table, normal or illicit, has \<open>high_gas_fee\<close> equal to 1 exactly when its
  gas price exceeds 50, and equal to 0 otherwise: the flag is computed from the sampled gas
  price and the noise touches neither column. A non-negative sample count gives that many
  rows.
\<close>

theorem generated_high_gas_fee_derived:
  "(\<forall>(t, l) \<in> set (fst (fst (generate_synthetic_data R n g))).
      (high_gas_fee t = 1 \<longleftrightarrow> gas_price t > 50)
      \<and> (high_gas_fee t = 0 \<longleftrightarrow> \<not> gas_price t > 50)
      \<and> (l = 0 \<or> l = 1))
   \<and> (0 \<le> n \<longrightarrow> length (fst (fst (generate_synthetic_data R n g))) = nat n)"
proof -
  define Q where "Q = (\<lambda>t :: features. high_gas_fee t = (if gas_price t > 50 then 1 else 0))"
  define L where "L = (\<lambda>l :: int. l = 0 \<or> l = 1)"
  define g1 where "g1 = np_seed R 42"
  define ns where "ns = py_int (of_int n * 0.85)"
  define normals where "normals = draw_rows (normal_transaction R) (nat ns) g1"
  define illicits where
    "illicits = draw_rows (illicit_transaction R) (nat (n - ns)) (snd normals)"
  define df0 where
    "df0 = map (\<lambda>t. (t, 0::int)) (fst normals) @ map (\<lambda>t. (t, 1)) (fst illicits)"
  define noise1 where
    "noise1 = np_normal_array R 0 (map (\<lambda>(t, l). amount t * 0.01) df0) (snd illicits)"
  define df1 where
    "df1 = map2 (\<lambda>(t, l) x. (t\<lparr> amount := amount t + x \<rparr>, l)) df0 (fst noise1)"
  define noise2 where
    "noise2 = np_normal_array R 0 (map (\<lambda>(t, l). balance t * 0.01) df1) (snd noise1)"
  define df2 where
    "df2 = map2 (\<lambda>(t, l) x. (t\<lparr> balance := balance t + x \<rparr>, l)) df1 (fst noise2)"
  have gen: "fst (fst (generate_synthetic_data R n g)) = df2"
    unfolding generate_synthetic_data_def Let_def split_beta df2_def noise2_def df1_def
      noise1_def df0_def illicits_def normals_def ns_def g1_def
    by simp
  have qn: "\<forall>t \<in> set (fst normals). Q t"
    unfolding normals_def by (rule draw_rows_all) (simp add: Q_def normal_transaction_flag)
  have qi: "\<forall>t \<in> set (fst illicits). Q t"
    unfolding illicits_def by (rule draw_rows_all) (simp add: Q_def illicit_transaction_flag)
  have q0: "\<forall>(t, l) \<in> set df0. Q t \<and> L l"
    unfolding df0_def using qn qi by (auto simp: L_def)
  have q1: "\<forall>(t, l) \<in> set df1. Q t \<and> L l"
    unfolding df1_def by (rule noise_rows_all [OF q0]) (simp add: Q_def)
  have q2: "\<forall>(t, l) \<in> set df2. Q t \<and> L l"
    unfolding df2_def by (rule noise_rows_all [OF q1]) (simp add: Q_def)
  have rows: "\<forall>(t, l) \<in> set df2.
      (high_gas_fee t = 1 \<longleftrightarrow> gas_price t > 50)
      \<and> (high_gas_fee t = 0 \<longleftrightarrow> \<not> gas_price t > 50)
      \<and> (l = 0 \<or> l = 1)"
    using q2 unfolding Q_def L_def by (auto split: if_splits)
  have len: "length df2 = nat n" if n: "0 \<le> n"
  proof -
    have l0: "length df0 = nat ns + nat (n - ns)"
      unfolding df0_def normals_def illicits_def by (simp add: draw_rows_length)
    have l1: "length df1 = length df0"
      unfolding df1_def noise1_def by (simp add: np_normal_array_length)
    have l2: "length df2 = length df1"
      unfolding df2_def noise2_def by (simp add: np_normal_array_length)
    have "0 \<le> ns \<and> ns \<le> n" unfolding ns_def using n by (rule py_int_085)
    then have "nat ns + nat (n - ns) = nat n" by linarith
    then show ?thesis using l0 l1 l2 by simp
  qed
  show ?thesis unfolding gen using rows len by blast
qed

theorem generated_high_gas_fee_derived_witness:
  "gas_columns (fst (fst (generate_synthetic_data counter_random 7 0)))
     = [(40, 0, 0), (60, 1, 0), (0, 0, 0), (20, 0, 0), (40, 0, 0), (200, 1, 1), (0, 0, 1)]
   \<and> (0::int) \<le> 7
   \<and> length (fst (fst (generate_synthetic_data counter_random 7 0))) = 7"
proof -
  have e: "gas_columns (fst (fst (generate_synthetic_data counter_random 7 0)))
     = [(40, 0, 0), (60, 1, 0), (0, 0, 0), (20, 0, 0), (40, 0, 0), (200, 1, 1), (0, 0, 1)]"
    by code_simp
  show ?thesis
    using generated_high_gas_fee_derived [of counter_random 7 0] e by simp
qed



end
